theory Spec2Isabelle
  imports Complex_Main
begin

section \<open>A shallow embedding of the corporal theremin backend\<close>

text \<open>
  The theory follows \<^verbatim>\<open>backend/theremin_backend.py\<close> and the wave-type endpoint of
  \<^verbatim>\<open>backend/main.py\<close>. Python floats are idealised as real numbers: every
  arithmetic operation is exact, there is no rounding, no infinity and no NaN. The one
  exception is the second version of the mapping, which rounds every operation as
  binary64 does. Python integers are \<^typ>\<open>int\<close>. Exceptions are values of
  \<open>py_error\<close>, returned on the left of a sum.
\<close>

subsection \<open>Errors and configuration\<close>

datatype py_error =
    ZeroDivisionError
  | ValueError
  | AttributeError
  | ExternalError string

text \<open>The dataclass \<^verbatim>\<open>ThereminConfig\<close> of \<^verbatim>\<open>theremin_backend.py\<close>.\<close>

record ThereminConfig =
  camera_index :: int
  frame_width :: int
  frame_height :: int
  sample_rate :: int
  frames_per_buffer :: int
  frequency_range :: "real \<times> real"
  volume_range :: "real \<times> real"
  config_wave_type :: string
  smooth_factor :: real
  left_hand_controls :: string
  right_hand_controls :: string

text \<open>The field defaults of the dataclass.\<close>

definition default_config :: ThereminConfig where
  "default_config =
     \<lparr> camera_index = 0, frame_width = 640, frame_height = 480,
       sample_rate = 44100, frames_per_buffer = 256,
       frequency_range = (200, 1000), volume_range = (0, 1),
       config_wave_type = ''sine'', smooth_factor = 1 / 10,
       left_hand_controls = ''volume'', right_hand_controls = ''frequency'' \<rparr>"

subsection \<open>Mapping hand positions to audio parameters\<close>

text \<open>
  A hand position is the pair \<open>(x, y)\<close> of pixel coordinates that
  \<^verbatim>\<open>HandTracker.process_frame\<close> stores, or \<^verbatim>\<open>None\<close>. A pair is truthy in
  Python whatever its components are, so \<^verbatim>\<open>if left_hand\<close> tests presence only.
\<close>

type_synonym hand_pos = "int \<times> int"

text \<open>Python's true division \<^verbatim>\<open>a / b\<close> on integers: a float, or ZeroDivisionError.\<close>

definition py_truediv :: "int \<Rightarrow> int \<Rightarrow> py_error + real" where
  "py_truediv a b = (if b = 0 then Inl ZeroDivisionError else Inr (real_of_int a / real_of_int b))"

text \<open>
  The first \<^verbatim>\<open>if/elif\<close> of \<^verbatim>\<open>map_hand_to_parameters\<close> (left hand), run on the
  initial values \<open>frequency = 440.0\<close> and \<open>volume = 0.0\<close>.
\<close>

definition map_left_hand ::
  "ThereminConfig \<Rightarrow> hand_pos option \<Rightarrow> real \<times> real \<Rightarrow> py_error + (real \<times> real)" where
  "map_left_hand cfg left_hand fv =
     (case fv of (frequency, volume) \<Rightarrow>
      (case left_hand of
         None \<Rightarrow> Inr (frequency, volume)
       | Some (x, y) \<Rightarrow>
           if left_hand_controls cfg = ''volume'' then
             (case py_truediv y (frame_height cfg) of
                Inl e \<Rightarrow> Inl e
              | Inr normalized_y \<Rightarrow>
                  (case volume_range cfg of (vol_min, vol_max) \<Rightarrow>
                     Inr (frequency,
                          max vol_min (min vol_max (vol_max - (vol_max - vol_min) * normalized_y)))))
           else if left_hand_controls cfg = ''frequency'' then
             (case py_truediv y (frame_height cfg) of
                Inl e \<Rightarrow> Inl e
              | Inr normalized_y \<Rightarrow>
                  (case frequency_range cfg of (freq_min, freq_max) \<Rightarrow>
                     Inr (freq_min + (freq_max - freq_min) * normalized_y, volume)))
           else Inr (frequency, volume)))"

text \<open>The second \<^verbatim>\<open>if/elif\<close> (right hand): frequency is tested first, then volume.\<close>

definition map_right_hand ::
  "ThereminConfig \<Rightarrow> hand_pos option \<Rightarrow> real \<times> real \<Rightarrow> py_error + (real \<times> real)" where
  "map_right_hand cfg right_hand fv =
     (case fv of (frequency, volume) \<Rightarrow>
      (case right_hand of
         None \<Rightarrow> Inr (frequency, volume)
       | Some (x, y) \<Rightarrow>
           if right_hand_controls cfg = ''frequency'' then
             (case py_truediv y (frame_height cfg) of
                Inl e \<Rightarrow> Inl e
              | Inr normalized_y \<Rightarrow>
                  (case frequency_range cfg of (freq_min, freq_max) \<Rightarrow>
                     Inr (freq_min + (freq_max - freq_min) * normalized_y, volume)))
           else if right_hand_controls cfg = ''volume'' then
             (case py_truediv y (frame_height cfg) of
                Inl e \<Rightarrow> Inl e
              | Inr normalized_y \<Rightarrow>
                  (case volume_range cfg of (vol_min, vol_max) \<Rightarrow>
                     Inr (frequency,
                          max vol_min (min vol_max (vol_max - (vol_max - vol_min) * normalized_y)))))
           else Inr (frequency, volume)))"

text \<open>
  \<^verbatim>\<open>CorporalTheremin.map_hand_to_parameters\<close>: the two blocks in sequence, then the
  final silencing when neither hand is present. The result is the pair
  \<open>(frequency, volume)\<close>.
\<close>

definition map_hand_to_parameters ::
  "ThereminConfig \<Rightarrow> hand_pos option \<Rightarrow> hand_pos option \<Rightarrow> py_error + (real \<times> real)" where
  "map_hand_to_parameters cfg left_hand right_hand =
     (case map_left_hand cfg left_hand (440, 0) of
        Inl e \<Rightarrow> Inl e
      | Inr fv1 \<Rightarrow>
          (case map_right_hand cfg right_hand fv1 of
             Inl e \<Rightarrow> Inl e
           | Inr (frequency, volume) \<Rightarrow>
               if left_hand = None \<and> right_hand = None then Inr (frequency, 0)
               else Inr (frequency, volume)))"

text \<open>
  The valid range of a hand's vertical coordinate named by the mapping property: a
  present hand has \<open>0 \<le> y \<le> frame_height\<close>; an absent hand is always valid.
\<close>

definition valid_hand :: "ThereminConfig \<Rightarrow> hand_pos option \<Rightarrow> bool" where
  "valid_hand cfg hand =
     (case hand of None \<Rightarrow> True | Some (x, y) \<Rightarrow> 0 \<le> y \<and> y \<le> frame_height cfg)"

subsection \<open>The mapping in double precision\<close>

text \<open>
  Whether a mapped value stays inside its range is decided by the rounding of each
  operation, so the mapping is given a second time with the arithmetic of Python's
  floats: IEEE binary64, every operation rounded to the nearest representable number,
  ties to the even significand. \<open>binary64\<close> is that rounding for the normal range (no
  overflow, no subnormal numbers); comparisons, \<^verbatim>\<open>max\<close> and \<^verbatim>\<open>min\<close> are exact.
\<close>

definition round_half_even :: "real \<Rightarrow> int" where
  "round_half_even x =
     (let f = \<lfloor>x\<rfloor>; d = x - of_int f in
      if d < 1 / 2 then f
      else if 1 / 2 < d then f + 1
      else if even f then f else f + 1)"

definition binary64 :: "real \<Rightarrow> real" where
  "binary64 x =
     (if x = 0 then 0
      else
        let e = \<lfloor>log 2 \<bar>x\<bar>\<rfloor>
        in of_int (round_half_even (x / 2 powr (of_int e - 52))) * 2 powr (of_int e - 52))"

text \<open>
  \<^verbatim>\<open>map_hand_to_parameters\<close> with each division, subtraction, multiplication and
  addition of lines 255-277 rounded. The ranges of the configuration are taken to hold
  doubles already.
\<close>

definition py_truediv_f64 :: "int \<Rightarrow> int \<Rightarrow> py_error + real" where
  "py_truediv_f64 a b =
     (if b = 0 then Inl ZeroDivisionError
      else Inr (binary64 (real_of_int a / real_of_int b)))"

definition map_left_hand_f64 ::
  "ThereminConfig \<Rightarrow> hand_pos option \<Rightarrow> real \<times> real \<Rightarrow> py_error + (real \<times> real)" where
  "map_left_hand_f64 cfg left_hand fv =
     (case fv of (frequency, volume) \<Rightarrow>
      (case left_hand of
         None \<Rightarrow> Inr (frequency, volume)
       | Some (x, y) \<Rightarrow>
           if left_hand_controls cfg = ''volume'' then
             (case py_truediv_f64 y (frame_height cfg) of
                Inl e \<Rightarrow> Inl e
              | Inr normalized_y \<Rightarrow>
                  (case volume_range cfg of (vol_min, vol_max) \<Rightarrow>
                     Inr (frequency,
                          max vol_min (min vol_max
                            (binary64 (vol_max
                               - binary64 (binary64 (vol_max - vol_min) * normalized_y)))))))
           else if left_hand_controls cfg = ''frequency'' then
             (case py_truediv_f64 y (frame_height cfg) of
                Inl e \<Rightarrow> Inl e
              | Inr normalized_y \<Rightarrow>
                  (case frequency_range cfg of (freq_min, freq_max) \<Rightarrow>
                     Inr (binary64 (freq_min
                            + binary64 (binary64 (freq_max - freq_min) * normalized_y)),
                          volume)))
           else Inr (frequency, volume)))"

definition map_right_hand_f64 ::
  "ThereminConfig \<Rightarrow> hand_pos option \<Rightarrow> real \<times> real \<Rightarrow> py_error + (real \<times> real)" where
  "map_right_hand_f64 cfg right_hand fv =
     (case fv of (frequency, volume) \<Rightarrow>
      (case right_hand of
         None \<Rightarrow> Inr (frequency, volume)
       | Some (x, y) \<Rightarrow>
           if right_hand_controls cfg = ''frequency'' then
             (case py_truediv_f64 y (frame_height cfg) of
                Inl e \<Rightarrow> Inl e
              | Inr normalized_y \<Rightarrow>
                  (case frequency_range cfg of (freq_min, freq_max) \<Rightarrow>
                     Inr (binary64 (freq_min
                            + binary64 (binary64 (freq_max - freq_min) * normalized_y)),
                          volume)))
           else if right_hand_controls cfg = ''volume'' then
             (case py_truediv_f64 y (frame_height cfg) of
                Inl e \<Rightarrow> Inl e
              | Inr normalized_y \<Rightarrow>
                  (case volume_range cfg of (vol_min, vol_max) \<Rightarrow>
                     Inr (frequency,
                          max vol_min (min vol_max
                            (binary64 (vol_max
                               - binary64 (binary64 (vol_max - vol_min) * normalized_y)))))))
           else Inr (frequency, volume)))"

definition map_hand_to_parameters_f64 ::
  "ThereminConfig \<Rightarrow> hand_pos option \<Rightarrow> hand_pos option \<Rightarrow> py_error + (real \<times> real)" where
  "map_hand_to_parameters_f64 cfg left_hand right_hand =
     (case map_left_hand_f64 cfg left_hand (440, 0) of
        Inl e \<Rightarrow> Inl e
      | Inr fv1 \<Rightarrow>
          (case map_right_hand_f64 cfg right_hand fv1 of
             Inl e \<Rightarrow> Inl e
           | Inr (frequency, volume) \<Rightarrow>
               if left_hand = None \<and> right_hand = None then Inr (frequency, 0)
               else Inr (frequency, volume)))"

text \<open>
  The default configuration with the frequency range \<^verbatim>\<open>(261.63, 1318.51)\<close>, the
  notes C4 to E6: each literal is the double nearest to the decimal.
\<close>

definition c4_e6_config :: ThereminConfig where
  "c4_e6_config =
     default_config\<lparr>frequency_range := (binary64 (26163 / 100), binary64 (131851 / 100))\<rparr>"

subsection \<open>The audio engine\<close>

text \<open>
  The PortAudio stream that \<^verbatim>\<open>setup_audio\<close> opens, reduced to the two facts the
  engine changes: whether it is running and whether it has been closed.
\<close>

record PaStream =
  stream_active :: bool
  stream_closed :: bool

text \<open>
  The fields of \<^verbatim>\<open>AudioEngine\<close>. \<open>audio_terminated\<close> stands for the
  \<^verbatim>\<open>pyaudio.PyAudio\<close> instance \<^verbatim>\<open>self.audio\<close>, which only \<open>cleanup\<close> changes.
\<close>

record AudioEngine =
  config :: ThereminConfig
  audio_terminated :: bool
  stream :: "PaStream option"
  is_playing :: bool
  current_phase :: real
  frequency :: real
  volume :: real
  wave_type :: string

text \<open>
  Python's \<^verbatim>\<open>a % b\<close> on floats, for a divisor that is not zero: the result has the
  sign of the divisor. \<open>generate_wave\<close> only ever divides by a positive period.
\<close>

definition py_fmod :: "real \<Rightarrow> real \<Rightarrow> real" where
  "py_fmod a b = a - b * of_int \<lfloor>a / b\<rfloor>"

text \<open>\<^verbatim>\<open>np.clip(x, lo, hi)\<close> on one element: \<open>minimum(maximum(x, lo), hi)\<close>.\<close>

definition np_clip :: "real \<Rightarrow> real \<Rightarrow> real \<Rightarrow> real" where
  "np_clip x lo hi = min (max x lo) hi"

text \<open>
  One element of \<^verbatim>\<open>wave\<close> in \<^verbatim>\<open>generate_wave\<close>, before volume and clipping: the
  \<^verbatim>\<open>if/elif\<close> chain on the wave type, with the sine as the fallback of the final
  \<^verbatim>\<open>else\<close>. \<^verbatim>\<open>np.sign\<close> is \<open>sgn\<close>.
\<close>

definition wave_value :: "string \<Rightarrow> real \<Rightarrow> real \<Rightarrow> real" where
  "wave_value wt f t_global =
     (if wt = ''sine'' then sin (2 * pi * f * t_global)
      else if wt = ''square'' then sgn (sin (2 * pi * f * t_global))
      else if wt = ''sawtooth'' then
        2 * (t_global * f - of_int \<lfloor>1 / 2 + t_global * f\<rfloor>)
      else if wt = ''triangle'' then
        2 * \<bar>2 * (t_global * f - of_int \<lfloor>t_global * f + 1 / 2\<rfloor>)\<bar> - 1
      else sin (2 * pi * f * t_global))"

text \<open>
  Element \<open>k\<close> of the array \<^verbatim>\<open>t_global\<close>:
  \<^verbatim>\<open>np.arange(num_samples) / self.config.sample_rate + self.current_phase\<close>.
\<close>

definition t_global :: "AudioEngine \<Rightarrow> nat \<Rightarrow> real" where
  "t_global eng k = real k / real_of_int (sample_rate (config eng)) + current_phase eng"

text \<open>
  \<^verbatim>\<open>AudioEngine.generate_wave\<close>. \<^verbatim>\<open>np.arange(num_samples)\<close> is \<open>[0..<nat num_samples]\<close>
  (empty for a negative count). The array division by a zero sample rate only warns in
  numpy, but the Python division \<^verbatim>\<open>num_samples / self.config.sample_rate\<close> of the
  phase update raises ZeroDivisionError, before any field is written. The result is the
  returned buffer and the engine with its new phase.
\<close>

definition generate_wave :: "AudioEngine \<Rightarrow> int \<Rightarrow> py_error + (real list \<times> AudioEngine)" where
  "generate_wave eng num_samples =
     (if sample_rate (config eng) = 0 then Inl ZeroDivisionError
      else
        let wave = map (\<lambda>k. wave_value (wave_type eng) (frequency eng) (t_global eng k))
                       [0..<nat num_samples];
            advanced = current_phase eng
                         + real_of_int num_samples / real_of_int (sample_rate (config eng));
            wrapped = py_fmod advanced (if frequency eng > 0 then 1 / frequency eng else 1)
        in Inr (map (\<lambda>w. np_clip (w * volume eng) (- (9 / 10)) (9 / 10)) wave,
                eng\<lparr>current_phase := wrapped\<rparr>))"

text \<open>
  \<^verbatim>\<open>AudioEngine.audio_callback\<close>. The status argument is only logged. The model
  returns the samples; the source returns their bytes together with the constant
  \<^verbatim>\<open>paContinue\<close>. \<^verbatim>\<open>np.zeros\<close> raises ValueError on a negative count.
\<close>

definition audio_callback :: "AudioEngine \<Rightarrow> int \<Rightarrow> py_error + (real list \<times> AudioEngine)" where
  "audio_callback eng frame_count =
     (if \<not> is_playing eng \<or> volume eng < 1 / 100 then
        (if frame_count < 0 then Inl ValueError
         else Inr (replicate (nat frame_count) 0, eng))
      else generate_wave eng frame_count)"

definition update_parameters :: "AudioEngine \<Rightarrow> real \<Rightarrow> real \<Rightarrow> AudioEngine" where
  "update_parameters eng f v = eng\<lparr>frequency := f, volume := v\<rparr>"

definition set_wave_type :: "AudioEngine \<Rightarrow> string \<Rightarrow> AudioEngine" where
  "set_wave_type eng w =
     (if w \<in> set [''sine'', ''square'', ''sawtooth'', ''triangle'']
      then eng\<lparr>wave_type := w\<rparr> else eng)"

text \<open>\<^verbatim>\<open>AudioEngine.start\<close>, \<^verbatim>\<open>stop\<close> and \<^verbatim>\<open>cleanup\<close>.\<close>

definition AudioEngine_start :: "AudioEngine \<Rightarrow> AudioEngine" where
  "AudioEngine_start eng =
     (case stream eng of
        Some s \<Rightarrow>
          if \<not> is_playing eng
          then eng\<lparr>stream := Some (s\<lparr>stream_active := True\<rparr>), is_playing := True\<rparr>
          else eng
      | None \<Rightarrow> eng)"

definition AudioEngine_stop :: "AudioEngine \<Rightarrow> AudioEngine" where
  "AudioEngine_stop eng =
     (case stream eng of
        Some s \<Rightarrow>
          if is_playing eng
          then eng\<lparr>stream := Some (s\<lparr>stream_active := False\<rparr>), is_playing := False\<rparr>
          else eng
      | None \<Rightarrow> eng)"

definition AudioEngine_cleanup :: "AudioEngine \<Rightarrow> AudioEngine" where
  "AudioEngine_cleanup eng =
     (let eng1 = AudioEngine_stop eng;
          eng2 = (case stream eng1 of
                    Some s \<Rightarrow> eng1\<lparr>stream := Some (s\<lparr>stream_closed := True\<rparr>)\<rparr>
                  | None \<Rightarrow> eng1)
      in eng2\<lparr>audio_terminated := True\<rparr>)"

text \<open>
  The amplitude step bound of the phase-continuity property: a sine of amplitude
  \<open>v\<close> and frequency \<open>f\<close>, sampled every \<open>1 / rate\<close> seconds, changes by at most
  \<open>v * 2 * pi * f / rate\<close> from one sample to the next.
\<close>

definition amplitude_step_bound :: "real \<Rightarrow> real \<Rightarrow> int \<Rightarrow> real" where
  "amplitude_step_bound v f rate = \<bar>v\<bar> * (2 * pi * \<bar>f\<bar> / \<bar>real_of_int rate\<bar>)"

subsection \<open>Set-up and release of the external resources\<close>

text \<open>
  The camera object of \<^verbatim>\<open>cv2.VideoCapture\<close>, reduced to \<^verbatim>\<open>isOpened()\<close>, and the
  fields of \<^verbatim>\<open>HandTracker\<close>: \<open>hands_closed\<close> records that \<^verbatim>\<open>self.hands.close()\<close>
  has run.
\<close>

record VideoCapture =
  is_opened :: bool

record HandTracker =
  hands_closed :: bool
  left_hand_pos :: "hand_pos option"
  right_hand_pos :: "hand_pos option"

text \<open>
  The fields of \<^verbatim>\<open>CorporalTheremin\<close> that set-up and release read or write. The
  processing thread is its \<^verbatim>\<open>is_alive()\<close> flag, when a thread object exists.
\<close>

record CorporalTheremin =
  theremin_config :: ThereminConfig
  audio_engine :: "AudioEngine option"
  hand_tracker :: "HandTracker option"
  camera :: "VideoCapture option"
  is_running :: bool
  processing_thread :: "bool option"

text \<open>
  What the external libraries do during one run of the set-up: each constructor either
  raises or succeeds. \<^verbatim>\<open>cv2.VideoCapture\<close> succeeds with a capture that is open or
  not.
\<close>

record SetupEnv =
  video_capture_result :: "py_error + bool"
  hands_result :: "py_error option"
  pyaudio_result :: "py_error option"
  stream_open_result :: "py_error option"

text \<open>
  \<^verbatim>\<open>HandTracker.__init__\<close> and \<^verbatim>\<open>AudioEngine.__init__\<close> (which ends with
  \<^verbatim>\<open>setup_audio\<close>; that one logs and re-raises what \<^verbatim>\<open>self.audio.open\<close> raises).
  PyAudio starts a stream as soon as it is opened. \<open>fresh_engine\<close> holds the fields as
  the constructor assigns them.
\<close>

definition HandTracker_init :: "SetupEnv \<Rightarrow> py_error + HandTracker" where
  "HandTracker_init env =
     (case hands_result env of
        Some e \<Rightarrow> Inl e
      | None \<Rightarrow> Inr \<lparr>hands_closed = False, left_hand_pos = None, right_hand_pos = None\<rparr>)"

definition fresh_engine :: "ThereminConfig \<Rightarrow> AudioEngine" where
  "fresh_engine cfg =
     \<lparr> config = cfg, audio_terminated = False,
       stream = Some \<lparr>stream_active = True, stream_closed = False\<rparr>,
       is_playing = False, current_phase = 0, frequency = 440, volume = 0,
       wave_type = config_wave_type cfg \<rparr>"

definition AudioEngine_init :: "SetupEnv \<Rightarrow> ThereminConfig \<Rightarrow> py_error + AudioEngine" where
  "AudioEngine_init env cfg =
     (case pyaudio_result env of
        Some e \<Rightarrow> Inl e
      | None \<Rightarrow>
          (case stream_open_result env of
             Some e \<Rightarrow> Inl e
           | None \<Rightarrow> Inr (fresh_engine cfg)))"

text \<open>
  \<^verbatim>\<open>CorporalTheremin.stop\<close>. The call \<^verbatim>\<open>self.audio_engine.stop()\<close> has no guard: on
  \<^verbatim>\<open>None\<close> it raises AttributeError, after \<open>is_running\<close> has been cleared. Joining
  the thread changes no field. The result carries the object's state also when the
  method raises.
\<close>

definition CorporalTheremin_stop ::
  "CorporalTheremin \<Rightarrow> (py_error + unit) \<times> CorporalTheremin" where
  "CorporalTheremin_stop th =
     (let th1 = th\<lparr>is_running := False\<rparr> in
      case audio_engine th1 of
        None \<Rightarrow> (Inl AttributeError, th1)
      | Some eng \<Rightarrow> (Inr (), th1\<lparr>audio_engine := Some (AudioEngine_stop eng)\<rparr>))"

text \<open>
  \<^verbatim>\<open>CorporalTheremin.cleanup\<close>: \<open>stop\<close> first, then the three guarded releases.
\<close>

definition CorporalTheremin_cleanup ::
  "CorporalTheremin \<Rightarrow> (py_error + unit) \<times> CorporalTheremin" where
  "CorporalTheremin_cleanup th =
     (case CorporalTheremin_stop th of
        (Inl e, th1) \<Rightarrow> (Inl e, th1)
      | (Inr u, th1) \<Rightarrow>
          let th2 = (case audio_engine th1 of
                       Some eng \<Rightarrow> th1\<lparr>audio_engine := Some (AudioEngine_cleanup eng)\<rparr>
                     | None \<Rightarrow> th1);
              th3 = (case hand_tracker th2 of
                       Some ht \<Rightarrow> th2\<lparr>hand_tracker := Some (ht\<lparr>hands_closed := True\<rparr>)\<rparr>
                     | None \<Rightarrow> th2);
              th4 = (case camera th3 of
                       Some cam \<Rightarrow>
                         if is_opened cam
                         then th3\<lparr>camera := Some (cam\<lparr>is_opened := False\<rparr>)\<rparr>
                         else th3
                     | None \<Rightarrow> th3)
          in (Inr (), th4))"

text \<open>
  The body of the \<^verbatim>\<open>try\<close> in \<^verbatim>\<open>CorporalTheremin.setup\<close>: camera, hand tracker,
  audio engine, each assigned to its field only when its constructor returns. The two
  \<^verbatim>\<open>camera.set\<close> calls return a flag and change nothing here.
\<close>

definition setup_try :: "SetupEnv \<Rightarrow> CorporalTheremin \<Rightarrow> (py_error + unit) \<times> CorporalTheremin" where
  "setup_try env th =
     (case video_capture_result env of
        Inl e \<Rightarrow> (Inl e, th)
      | Inr opened \<Rightarrow>
          let th1 = th\<lparr>camera := Some \<lparr>is_opened = opened\<rparr>\<rparr> in
          (case HandTracker_init env of
             Inl e \<Rightarrow> (Inl e, th1)
           | Inr ht \<Rightarrow>
               let th2 = th1\<lparr>hand_tracker := Some ht\<rparr> in
               (case AudioEngine_init env (theremin_config th2) of
                  Inl e \<Rightarrow> (Inl e, th2)
                | Inr eng \<Rightarrow> (Inr (), th2\<lparr>audio_engine := Some eng\<rparr>))))"

text \<open>
  \<^verbatim>\<open>CorporalTheremin.setup\<close>: the \<^verbatim>\<open>except\<close> clause runs \<open>cleanup\<close> and then
  re-raises the exception it caught; an exception raised by \<open>cleanup\<close> itself
  replaces it.
\<close>

definition CorporalTheremin_setup ::
  "SetupEnv \<Rightarrow> CorporalTheremin \<Rightarrow> (py_error + unit) \<times> CorporalTheremin" where
  "CorporalTheremin_setup env th =
     (case setup_try env th of
        (Inr u, th1) \<Rightarrow> (Inr u, th1)
      | (Inl e, th1) \<Rightarrow>
          (case CorporalTheremin_cleanup th1 of
             (Inl e', th2) \<Rightarrow> (Inl e', th2)
           | (Inr u, th2) \<Rightarrow> (Inl e, th2)))"

text \<open>The fields as \<^verbatim>\<open>CorporalTheremin.__init__\<close> leaves them before it calls the set-up.\<close>

definition new_theremin :: "ThereminConfig \<Rightarrow> CorporalTheremin" where
  "new_theremin cfg =
     \<lparr> theremin_config = cfg, audio_engine = None, hand_tracker = None, camera = None,
       is_running = False, processing_thread = None \<rparr>"

subsection \<open>The wave-type endpoint\<close>

text \<open>
  \<^verbatim>\<open>CorporalTheremin.set_wave_type\<close> passes the string to the engine; without an
  engine the attribute access raises.
\<close>

definition CorporalTheremin_set_wave_type ::
  "CorporalTheremin \<Rightarrow> string \<Rightarrow> py_error + CorporalTheremin" where
  "CorporalTheremin_set_wave_type th w =
     (case audio_engine th of
        None \<Rightarrow> Inl AttributeError
      | Some eng \<Rightarrow> Inr (th\<lparr>audio_engine := Some (set_wave_type eng w)\<rparr>))"

text \<open>
  \<^verbatim>\<open>ThereminAPI\<close> of \<^verbatim>\<open>main.py\<close>, reduced to the theremin it holds
  (\<^verbatim>\<open>None\<close> when its construction failed), and \<^verbatim>\<open>ThereminAPI.update_wave_type\<close>,
  which returns whether a theremin was there.
\<close>

record ThereminAPI =
  theremin :: "CorporalTheremin option"

definition ThereminAPI_update_wave_type ::
  "ThereminAPI \<Rightarrow> string \<Rightarrow> py_error + (bool \<times> ThereminAPI)" where
  "ThereminAPI_update_wave_type api w =
     (case theremin api of
        Some th \<Rightarrow>
          (case CorporalTheremin_set_wave_type th w of
             Inl e \<Rightarrow> Inl e
           | Inr th' \<Rightarrow> Inr (True, api\<lparr>theremin := Some th'\<rparr>))
      | None \<Rightarrow> Inr (False, api))"

text \<open>
  The route \<^verbatim>\<open>POST /api/wave_type\<close>. The request body is a JSON object; the model
  keeps its \<^verbatim>\<open>wave_type\<close> entry, a string or absent, and
  \<^verbatim>\<open>data.get('wave_type', 'sine')\<close> supplies the default. The reply is its
  \<^verbatim>\<open>success\<close> flag; the message text is left out.
\<close>

definition update_wave_type ::
  "ThereminAPI \<Rightarrow> string option \<Rightarrow> py_error + (bool \<times> ThereminAPI)" where
  "update_wave_type api body =
     (let w = (case body of Some s \<Rightarrow> s | None \<Rightarrow> ''sine'') in
      if w \<notin> set [''sine'', ''square'', ''sawtooth'', ''triangle'']
      then Inr (False, api)
      else ThereminAPI_update_wave_type api w)"

subsection \<open>Example inputs\<close>

text \<open>
  A started engine, as \<^verbatim>\<open>AudioEngine.__init__\<close> and \<^verbatim>\<open>start\<close> leave it for the
  default configuration with a sample rate of 2400 Hz, after the processing loop has
  written a frequency of 200 Hz and a volume through \<open>update_parameters\<close>.
\<close>

definition tone_engine :: "real \<Rightarrow> AudioEngine" where
  "tone_engine v =
     update_parameters
       (AudioEngine_start (fresh_engine (default_config\<lparr>sample_rate := 2400\<rparr>))) 200 v"

text \<open>
  A run of the set-up in which the camera opens, the hand tracker is built and the
  audio device then cannot be opened, and a run in which every constructor succeeds.
\<close>

definition audio_fail_env :: SetupEnv where
  "audio_fail_env =
     \<lparr> video_capture_result = Inr True, hands_result = None,
       pyaudio_result = None, stream_open_result = Some (ExternalError ''no audio device'') \<rparr>"

definition ok_env :: SetupEnv where
  "ok_env =
     \<lparr> video_capture_result = Inr True, hands_result = None,
       pyaudio_result = None, stream_open_result = None \<rparr>"

section \<open>Properties\<close>

subsection \<open>Auxiliary facts about the mapping\<close>

lemmas map_defs =
  map_hand_to_parameters_def map_left_hand_def map_right_hand_def py_truediv_def

lemma interp_in_range:
  fixes a b n :: real
  assumes "a \<le> b" "0 \<le> n" "n \<le> 1"
  shows "a \<le> a + (b - a) * n" "a + (b - a) * n \<le> b"
proof -
  have "0 \<le> (b - a) * n" using assms by simp
  then show "a \<le> a + (b - a) * n" by simp
  have "(b - a) * n \<le> (b - a) * 1" using assms by (intro mult_left_mono) simp_all
  then show "a + (b - a) * n \<le> b" by simp
qed

lemma normalized_unit:
  fixes y h :: int
  assumes "0 < h" "0 \<le> y" "y \<le> h"
  shows "0 \<le> real_of_int y / real_of_int h" "real_of_int y / real_of_int h \<le> 1"
  using assms by simp_all

lemma interp_pixels:
  fixes a b :: real and y h :: int
  assumes "a \<le> b" "0 < h" "0 \<le> y" "y \<le> h"
  shows "a \<le> a + (b - a) * real_of_int y / real_of_int h"
    and "a + (b - a) * real_of_int y / real_of_int h \<le> b"
  using interp_in_range [OF assms(1) normalized_unit [OF assms(2-4)]] by simp_all

lemma clamp_in_range:
  fixes lo hi v :: real
  assumes "lo \<le> hi"
  shows "lo \<le> max lo (min hi v)" "max lo (min hi v) \<le> hi"
  using assms by simp_all


lemma map_left_hand_range:
  assumes h: "0 < frame_height cfg"
    and fr: "frequency_range cfg = (freq_min, freq_max)" "freq_min \<le> freq_max"
    and vr: "volume_range cfg = (vol_min, vol_max)" "vol_min \<le> vol_max"
    and l: "valid_hand cfg left_hand"
  obtains f v where
    "map_left_hand cfg left_hand (f0, v0) = Inr (f, v)"
    "if left_hand \<noteq> None \<and> left_hand_controls cfg = ''frequency''
     then freq_min \<le> f \<and> f \<le> freq_max else f = f0"
    "if left_hand \<noteq> None \<and> left_hand_controls cfg = ''volume''
     then vol_min \<le> v \<and> v \<le> vol_max else v = v0"
proof (cases left_hand)
  case None
  then show ?thesis using that [of f0 v0] by (simp add: map_left_hand_def)
next
  case (Some p)
  obtain x y where p: "p = (x, y)" by (cases p)
  have y: "0 \<le> y" "y \<le> frame_height cfg"
    using l Some p by (simp_all add: valid_hand_def)
  define n where "n = real_of_int y / real_of_int (frame_height cfg)"
  have n: "0 \<le> n" "n \<le> 1"
    unfolding n_def using normalized_unit [OF h y] by simp_all
  have div: "py_truediv y (frame_height cfg) = Inr n"
    using h by (simp add: py_truediv_def n_def)
  consider (vol) "left_hand_controls cfg = ''volume''"
    | (freq) "left_hand_controls cfg = ''frequency''"
    | (other) "left_hand_controls cfg \<noteq> ''volume''" "left_hand_controls cfg \<noteq> ''frequency''"
    by blast
  then show ?thesis
  proof cases
    case vol
    have "map_left_hand cfg left_hand (f0, v0)
            = Inr (f0, max vol_min (min vol_max (vol_max - (vol_max - vol_min) * n)))"
      by (simp add: map_left_hand_def Some p vol div vr)
    then show ?thesis
      using that clamp_in_range [OF vr(2)] Some vol by simp
  next
    case freq
    have "map_left_hand cfg left_hand (f0, v0) = Inr (freq_min + (freq_max - freq_min) * n, v0)"
      by (simp add: map_left_hand_def Some p freq div fr)
    then show ?thesis
      using that interp_in_range [OF fr(2) n] Some freq by simp
  next
    case other
    have "map_left_hand cfg left_hand (f0, v0) = Inr (f0, v0)"
      by (simp add: map_left_hand_def Some p other)
    then show ?thesis
      using that other by simp
  qed
qed

lemma map_right_hand_range:
  assumes h: "0 < frame_height cfg"
    and fr: "frequency_range cfg = (freq_min, freq_max)" "freq_min \<le> freq_max"
    and vr: "volume_range cfg = (vol_min, vol_max)" "vol_min \<le> vol_max"
    and r: "valid_hand cfg right_hand"
  obtains f v where
    "map_right_hand cfg right_hand (f0, v0) = Inr (f, v)"
    "if right_hand \<noteq> None \<and> right_hand_controls cfg = ''frequency''
     then freq_min \<le> f \<and> f \<le> freq_max else f = f0"
    "if right_hand \<noteq> None \<and> right_hand_controls cfg = ''volume''
     then vol_min \<le> v \<and> v \<le> vol_max else v = v0"
proof (cases right_hand)
  case None
  then show ?thesis using that [of f0 v0] by (simp add: map_right_hand_def)
next
  case (Some p)
  obtain x y where p: "p = (x, y)" by (cases p)
  have y: "0 \<le> y" "y \<le> frame_height cfg"
    using r Some p by (simp_all add: valid_hand_def)
  define n where "n = real_of_int y / real_of_int (frame_height cfg)"
  have n: "0 \<le> n" "n \<le> 1"
    unfolding n_def using normalized_unit [OF h y] by simp_all
  have div: "py_truediv y (frame_height cfg) = Inr n"
    using h by (simp add: py_truediv_def n_def)
  consider (freq) "right_hand_controls cfg = ''frequency''"
    | (vol) "right_hand_controls cfg = ''volume''"
    | (other) "right_hand_controls cfg \<noteq> ''volume''" "right_hand_controls cfg \<noteq> ''frequency''"
    by blast
  then show ?thesis
  proof cases
    case vol
    have "map_right_hand cfg right_hand (f0, v0)
            = Inr (f0, max vol_min (min vol_max (vol_max - (vol_max - vol_min) * n)))"
      by (simp add: map_right_hand_def Some p vol div vr)
    then show ?thesis
      using that clamp_in_range [OF vr(2)] Some vol by simp
  next
    case freq
    have "map_right_hand cfg right_hand (f0, v0) = Inr (freq_min + (freq_max - freq_min) * n, v0)"
      by (simp add: map_right_hand_def Some p freq div fr)
    then show ?thesis
      using that interp_in_range [OF fr(2) n] Some freq by simp
  next
    case other
    have "map_right_hand cfg right_hand (f0, v0) = Inr (f0, v0)"
      by (simp add: map_right_hand_def Some p other)
    then show ?thesis
      using that other by simp
  qed
qed



subsection \<open>The mapping claims\<close>

text \<open>
  In exact arithmetic the interpolation cannot leave an ordered range. For a positive
  frame height and hands in the valid range, the frequency returned lies in the
  frequency range when a present hand is assigned to frequency and is the constant 440
  otherwise; the volume lies in the volume range when a present hand is assigned to
  volume and is the constant 0 otherwise.
\<close>

lemma exact_mapping_in_range:
  assumes h: "0 < frame_height cfg"
    and fr: "frequency_range cfg = (freq_min, freq_max)" "freq_min \<le> freq_max"
    and vr: "volume_range cfg = (vol_min, vol_max)" "vol_min \<le> vol_max"
    and l: "valid_hand cfg left_hand"
    and r: "valid_hand cfg right_hand"
  shows "\<exists>f v.
     map_hand_to_parameters cfg left_hand right_hand = Inr (f, v) \<and>
     (if (left_hand \<noteq> None \<and> left_hand_controls cfg = ''frequency'') \<or>
         (right_hand \<noteq> None \<and> right_hand_controls cfg = ''frequency'')
      then freq_min \<le> f \<and> f \<le> freq_max else f = 440) \<and>
     (if (left_hand \<noteq> None \<and> left_hand_controls cfg = ''volume'') \<or>
         (right_hand \<noteq> None \<and> right_hand_controls cfg = ''volume'')
      then vol_min \<le> v \<and> v \<le> vol_max else v = 0)"
proof -
  obtain f1 v1 where
    s1: "map_left_hand cfg left_hand (440, 0) = Inr (f1, v1)"
    and f1: "if left_hand \<noteq> None \<and> left_hand_controls cfg = ''frequency''
             then freq_min \<le> f1 \<and> f1 \<le> freq_max else f1 = 440"
    and v1: "if left_hand \<noteq> None \<and> left_hand_controls cfg = ''volume''
             then vol_min \<le> v1 \<and> v1 \<le> vol_max else v1 = 0"
    by (rule map_left_hand_range [OF h fr vr l, of 440 0])
  obtain f2 v2 where
    s2: "map_right_hand cfg right_hand (f1, v1) = Inr (f2, v2)"
    and f2: "if right_hand \<noteq> None \<and> right_hand_controls cfg = ''frequency''
             then freq_min \<le> f2 \<and> f2 \<le> freq_max else f2 = f1"
    and v2: "if right_hand \<noteq> None \<and> right_hand_controls cfg = ''volume''
             then vol_min \<le> v2 \<and> v2 \<le> vol_max else v2 = v1"
    by (rule map_right_hand_range [OF h fr vr r, of f1 v1])
  have res: "map_hand_to_parameters cfg left_hand right_hand
               = Inr (f2, if left_hand = None \<and> right_hand = None then 0 else v2)"
    by (simp add: map_hand_to_parameters_def s1 s2)
  have fq: "if (left_hand \<noteq> None \<and> left_hand_controls cfg = ''frequency'') \<or>
         (right_hand \<noteq> None \<and> right_hand_controls cfg = ''frequency'')
      then freq_min \<le> f2 \<and> f2 \<le> freq_max else f2 = 440"
    using f1 f2 by (auto split: if_splits)
  have vq: "if (left_hand \<noteq> None \<and> left_hand_controls cfg = ''volume'') \<or>
         (right_hand \<noteq> None \<and> right_hand_controls cfg = ''volume'')
      then vol_min \<le> (if left_hand = None \<and> right_hand = None then 0 else v2)
           \<and> (if left_hand = None \<and> right_hand = None then 0 else v2) \<le> vol_max
      else (if left_hand = None \<and> right_hand = None then 0 else v2) = 0"
    using v1 v2 by (auto split: if_splits)
  show ?thesis using res fq vq by blast
qed


text \<open>
  The constant 440 is returned whatever the configured range is: with the range
  (500, 1000) and only a left hand, at the valid height 100, the frequency is 440.
\<close>

lemma default_frequency_outside_range:
  "map_hand_to_parameters (default_config\<lparr>frequency_range := (500, 1000)\<rparr>) (Some (0, 100)) None
     = Inr (440, 19 / 24)
   \<and> valid_hand (default_config\<lparr>frequency_range := (500, 1000)\<rparr>) (Some (0, 100))
   \<and> \<not> (fst (frequency_range (default_config\<lparr>frequency_range := (500, 1000)\<rparr>)) \<le> 440)"
  by (simp add: map_defs default_config_def valid_hand_def)

text \<open>
  In double precision the volume still cannot leave an ordered range, because both
  volume branches end with the clamp: whatever the rounding did, the volume returned
  is 0 or lies in the range.
\<close>

lemma volume_clamped_f64:
  assumes vr: "volume_range cfg = (vol_min, vol_max)" "vol_min \<le> vol_max"
    and res: "map_hand_to_parameters_f64 cfg left_hand right_hand = Inr (f, v)"
  shows "v = 0 \<or> (vol_min \<le> v \<and> v \<le> vol_max)"
  using res clamp_in_range [OF vr(2)]
  by (auto simp: map_hand_to_parameters_f64_def map_left_hand_f64_def map_right_hand_f64_def
        vr(1) split: option.splits sum.splits if_splits prod.splits
        simp del: max_less_iff_conj min_less_iff_conj)

text \<open>
  The rounding of the operations behind the next theorem. A number in
  \<open>[2 ^ e, 2 ^ (e + 1))\<close> is rounded to a multiple of \<open>2 ^ (e - 52)\<close>.
\<close>

lemma binary64_normal:
  assumes lo: "2 ^ e \<le> x" and hi: "x < 2 ^ Suc e" and e: "e \<le> 52"
  shows "binary64 x = of_int (round_half_even (x * 2 ^ (52 - e))) / 2 ^ (52 - e)"
proof -
  have pos: "0 < x" using lo by (rule less_le_trans [rotated]) simp
  have "\<lfloor>log 2 x\<rfloor> = int e"
    using lo hi pos
    by (subst floor_log_eq_powr_iff) (simp_all add: powr_realpow powr_add)
  then have fl: "\<lfloor>log 2 \<bar>x\<bar>\<rfloor> = int e" using pos by simp
  have "real_of_int (int e) - 52 = - real (52 - e)" using e by simp
  then have sc: "2 powr (real_of_int (int e) - 52) = 1 / 2 ^ (52 - e)"
    by (simp only: powr_minus powr_realpow zero_less_numeral inverse_eq_divide)
  have nz: "x \<noteq> 0" using pos by simp
  have "binary64 x =
          of_int (round_half_even (x / 2 powr (of_int \<lfloor>log 2 \<bar>x\<bar>\<rfloor> - 52)))
            * 2 powr (of_int \<lfloor>log 2 \<bar>x\<bar>\<rfloor> - 52)"
    unfolding binary64_def Let_def using nz by (simp only: if_False)
  also have "\<dots> = of_int (round_half_even (x / (1 / 2 ^ (52 - e)))) * (1 / 2 ^ (52 - e))"
    by (simp only: fl sc)
  also have "\<dots> = of_int (round_half_even (x * 2 ^ (52 - e))) / 2 ^ (52 - e)"
    by simp
  finally show ?thesis .
qed

lemma double_261_63: "binary64 (26163 / 100) = 4602643634800558 / 2 ^ 44"
  by (subst binary64_normal [where e = 8]) (simp_all add: round_half_even_def Let_def)

lemma double_1318_51: "binary64 (131851 / 100) = 5798868305355735 / 2 ^ 42"
  by (subst binary64_normal [where e = 10]) (simp_all add: round_half_even_def Let_def)

lemma double_480_by_480: "binary64 1 = 1"
  by (subst binary64_normal [where e = 0]) (simp_all add: round_half_even_def Let_def)

lemma double_difference:
  "binary64 (5798868305355735 / 2 ^ 42 - 4602643634800558 / 2 ^ 44)
     = 4648207396655596 / 2 ^ 42"
  by (subst binary64_normal [where e = 10]) (simp_all add: round_half_even_def Let_def)

lemma double_product: "binary64 (4648207396655596 / 2 ^ 42) = 4648207396655596 / 2 ^ 42"
  by (subst binary64_normal [where e = 10]) (simp_all add: round_half_even_def Let_def)

lemma double_sum:
  "binary64 (4602643634800558 / 2 ^ 44 + 4648207396655596 / 2 ^ 42)
     = 5798868305355736 / 2 ^ 42"
  by (subst binary64_normal [where e = 10]) (simp_all add: round_half_even_def Let_def)

text \<open>
  Claim C1 on the code. The frequency range is (261.63, 1318.51), the frame height 480,
  and the right hand, assigned to frequency, is at the valid height 480. The
  difference of the bounds is a tie and rounds up, the sum with the lower bound is a
  tie and rounds up again, and nothing clamps it: the frequency returned is the upper
  bound plus \<open>2 ^ -42\<close>, the double 1318.5100000000002, outside the configured range.
  In exact arithmetic the same input gives the upper bound itself.
\<close>

theorem C1_frequency_exceeds_range_in_doubles:
  "map_hand_to_parameters_f64 c4_e6_config None (Some (0, 480))
     = Inr (snd (frequency_range c4_e6_config) + 1 / 2 ^ 42, 0)
   \<and> valid_hand c4_e6_config (Some (0, 480))
   \<and> right_hand_controls c4_e6_config = ''frequency''
   \<and> snd (frequency_range c4_e6_config) < snd (frequency_range c4_e6_config) + 1 / 2 ^ 42
   \<and> map_hand_to_parameters c4_e6_config None (Some (0, 480))
     = Inr (snd (frequency_range c4_e6_config), 0)"
proof -
  define lo :: real where "lo = 4602643634800558 / 2 ^ 44"
  define hi :: real where "hi = 5798868305355735 / 2 ^ 42"
  define d :: real where "d = 4648207396655596 / 2 ^ 42"
  have range: "frequency_range c4_e6_config = (lo, hi)"
    unfolding c4_e6_config_def double_261_63 double_1318_51 lo_def hi_def by simp
  have rest: "frame_height c4_e6_config = 480" "right_hand_controls c4_e6_config = ''frequency''"
    by (simp_all add: c4_e6_config_def default_config_def)
  have n: "py_truediv_f64 480 480 = Inr 1"
    by (simp add: py_truediv_f64_def double_480_by_480)
  have s1: "binary64 (hi - lo) = d"
    unfolding hi_def lo_def d_def by (rule double_difference)
  have s2: "binary64 d = d"
    unfolding d_def by (rule double_product)
  have "binary64 (lo + d) = 5798868305355736 / 2 ^ 42"
    unfolding lo_def d_def by (rule double_sum)
  also have "\<dots> = hi + 1 / 2 ^ 42"
    unfolding hi_def by simp
  finally have s3: "binary64 (lo + d) = hi + 1 / 2 ^ 42" .
  have f64: "map_hand_to_parameters_f64 c4_e6_config None (Some (0, 480))
               = Inr (hi + 1 / 2 ^ 42, 0)"
    by (simp add: map_hand_to_parameters_f64_def map_left_hand_f64_def
        map_right_hand_f64_def range rest n s1 s2 s3)
  have n': "py_truediv 480 480 = Inr 1"
    by (simp add: py_truediv_def)
  have exact: "map_hand_to_parameters c4_e6_config None (Some (0, 480)) = Inr (hi, 0)"
    by (simp add: map_hand_to_parameters_def map_left_hand_def map_right_hand_def
        range rest n')
  have valid: "valid_hand c4_e6_config (Some (0, 480))"
    by (simp add: valid_hand_def rest)
  have above: "hi < hi + 1 / 2 ^ 42" by simp
  show ?thesis
    using f64 exact valid above rest(2) by (simp only: range snd_conv)
qed

text \<open>
  Claim C2. With both hands absent, \<open>map_hand_to_parameters\<close> returns volume exactly
  zero, for every configuration; the frequency is the initial 440.0 and no error is
  raised.
\<close>

theorem C2_both_absent_silent:
  "map_hand_to_parameters cfg None None = Inr (440, 0)"
  by (simp add: map_hand_to_parameters_def map_left_hand_def map_right_hand_def)




subsection \<open>Auxiliary facts about the engine\<close>

lemma py_fmod_range:
  assumes "0 < b"
  shows "0 \<le> py_fmod a b" "py_fmod a b < b"
proof -
  have "of_int \<lfloor>a / b\<rfloor> * b \<le> a"
    using assms by (subst pos_le_divide_eq [symmetric]) simp_all
  then show "0 \<le> py_fmod a b" by (simp add: py_fmod_def mult.commute)
  have "a < (of_int \<lfloor>a / b\<rfloor> + 1) * b"
    using assms by (subst pos_divide_less_eq [symmetric]) simp_all
  then show "py_fmod a b < b" by (simp add: py_fmod_def algebra_simps)
qed

lemma np_clip_bound: "\<bar>np_clip x (- (9 / 10)) (9 / 10)\<bar> \<le> 9 / 10"
  unfolding np_clip_def by linarith

lemma generate_wave_eq:
  assumes "sample_rate (config eng) \<noteq> 0"
  shows "generate_wave eng num_samples =
     Inr (map (\<lambda>k. np_clip (wave_value (wave_type eng) (frequency eng) (t_global eng k)
                              * volume eng) (- (9 / 10)) (9 / 10)) [0..<nat num_samples],
          eng\<lparr>current_phase :=
                py_fmod (current_phase eng
                           + real_of_int num_samples / real_of_int (sample_rate (config eng)))
                        (if frequency eng > 0 then 1 / frequency eng else 1)\<rparr>)"
  using assms by (simp add: generate_wave_def Let_def comp_def)

lemma generate_wave_Inr_rate:
  assumes "generate_wave eng num_samples = Inr r"
  shows "sample_rate (config eng) \<noteq> 0"
  using assms by (auto simp: generate_wave_def split: if_splits)

lemma upt_4: "[0..<4] = [0, 1, 2, 3]"
  by (simp add: upt_rec)

lemmas tone_defs =
  tone_engine_def update_parameters_def AudioEngine_start_def fresh_engine_def
  default_config_def set_wave_type_def

lemma sawtooth_buffer:
  "generate_wave (set_wave_type (tone_engine 2) ''sawtooth'') 4 =
     Inr ([0, 1 / 3, 2 / 3, 9 / 10],
          (set_wave_type (tone_engine 2) ''sawtooth'')\<lparr>current_phase := 1 / 600\<rparr>)"
  by (simp add: generate_wave_def Let_def tone_defs t_global_def wave_value_def
      np_clip_def py_fmod_def upt_4)

subsection \<open>The engine claims\<close>

text \<open>
  Claim C4. When the sample rate is not zero, a call of \<open>generate_wave\<close> with
  \<open>num_samples\<close> returns a buffer and a new engine state. The new phase is the old
  phase plus \<open>num_samples / sample_rate\<close>, wrapped by Python's float modulo with the
  period \<open>1 / frequency\<close> (with 1 when the frequency is not positive): it lies in
  \<open>[0, period)\<close> and differs from the advanced phase by a whole number of periods.
  No other field changes. The buffer has \<open>num_samples\<close> entries, and entry \<open>k\<close> is the
  waveform at time \<open>k / sample_rate\<close> plus the old phase, times the volume, clipped.
\<close>

theorem C4_phase_advance_and_wrap:
  assumes "sample_rate (config eng) \<noteq> 0"
  shows "\<exists>buf eng'. generate_wave eng num_samples = Inr (buf, eng')
     \<and> current_phase eng' =
         py_fmod (current_phase eng
                    + real_of_int num_samples / real_of_int (sample_rate (config eng)))
                 (if frequency eng > 0 then 1 / frequency eng else 1)
     \<and> 0 \<le> current_phase eng'
     \<and> current_phase eng' < (if frequency eng > 0 then 1 / frequency eng else 1)
     \<and> (\<exists>m::int. current_phase eng' =
           current_phase eng + real_of_int num_samples / real_of_int (sample_rate (config eng))
           - of_int m * (if frequency eng > 0 then 1 / frequency eng else 1))
     \<and> eng' = eng\<lparr>current_phase := current_phase eng'\<rparr>
     \<and> length buf = nat num_samples
     \<and> (\<forall>k < nat num_samples. buf ! k =
           np_clip (wave_value (wave_type eng) (frequency eng)
                      (real k / real_of_int (sample_rate (config eng)) + current_phase eng)
                    * volume eng) (- (9 / 10)) (9 / 10))"
proof -
  define p where "p = (if frequency eng > 0 then 1 / frequency eng else 1)"
  define a where
    "a = current_phase eng + real_of_int num_samples / real_of_int (sample_rate (config eng))"
  have pp: "0 < p" unfolding p_def by simp
  have m: "\<exists>m::int. py_fmod a p = a - of_int m * p"
    by (rule exI [of _ "\<lfloor>a / p\<rfloor>"]) (simp add: py_fmod_def mult.commute)
  show ?thesis
    using py_fmod_range [OF pp, of a] m
    unfolding p_def a_def
    by (simp add: generate_wave_eq [OF assms] t_global_def)
qed

theorem C4_phase_advance_and_wrap_witness:
  "generate_wave (set_wave_type (tone_engine 2) ''sawtooth'') 4 =
     Inr ([0, 1 / 3, 2 / 3, 9 / 10],
          (set_wave_type (tone_engine 2) ''sawtooth'')\<lparr>current_phase := 1 / 600\<rparr>)
   \<and> (1 / 600 :: real) = 0 + 4 / 2400 - of_int 0 * (1 / 200)
   \<and> (0::real) \<le> 1 / 600 \<and> (1 / 600 :: real) < 1 / 200"
proof -
  have "sample_rate (config (set_wave_type (tone_engine 2) ''sawtooth'')) \<noteq> 0"
    by (simp add: tone_defs)
  from C4_phase_advance_and_wrap [OF this, of 4] show ?thesis
    by (simp add: sawtooth_buffer)
qed

text \<open>
  Claim C5. For every frequency, volume, wave type and sample count, \<open>generate_wave\<close>
  returns a buffer whenever the sample rate is not zero, and every sample of a buffer
  it returns has magnitude at most the margin 0.9, hence below full scale 1.0.
\<close>

theorem C5_samples_within_margin:
  "(sample_rate (config eng) \<noteq> 0 \<longrightarrow>
      (\<exists>buf eng'. generate_wave eng num_samples = Inr (buf, eng')))
   \<and> (\<forall>buf eng'. generate_wave eng num_samples = Inr (buf, eng') \<longrightarrow>
          (\<forall>s \<in> set buf. \<bar>s\<bar> \<le> 9 / 10 \<and> \<bar>s\<bar> < 1))"
proof (intro conjI impI allI ballI)
  assume "sample_rate (config eng) \<noteq> 0"
  then show "\<exists>buf eng'. generate_wave eng num_samples = Inr (buf, eng')"
    by (simp add: generate_wave_eq)
next
  fix buf eng' s
  assume g: "generate_wave eng num_samples = Inr (buf, eng')" and s: "s \<in> set buf"
  have "buf = map (\<lambda>k. np_clip (wave_value (wave_type eng) (frequency eng) (t_global eng k)
                              * volume eng) (- (9 / 10)) (9 / 10)) [0..<nat num_samples]"
    using g generate_wave_eq [OF generate_wave_Inr_rate [OF g], of num_samples] by simp
  with s obtain x where "s = np_clip x (- (9 / 10)) (9 / 10)" by auto
  then have le: "\<bar>s\<bar> \<le> 9 / 10" by (simp only: np_clip_bound)
  then show "\<bar>s\<bar> \<le> 9 / 10" .
  from le show "\<bar>s\<bar> < 1" by linarith
qed

theorem C5_samples_within_margin_witness:
  "generate_wave (set_wave_type (tone_engine 2) ''sawtooth'') 4 =
     Inr ([0, 1 / 3, 2 / 3, 9 / 10],
          (set_wave_type (tone_engine 2) ''sawtooth'')\<lparr>current_phase := 1 / 600\<rparr>)
   \<and> \<bar>0 :: real\<bar> \<le> 9 / 10 \<and> \<bar>1 / 3 :: real\<bar> \<le> 9 / 10
   \<and> \<bar>2 / 3 :: real\<bar> \<le> 9 / 10 \<and> \<bar>9 / 10 :: real\<bar> \<le> 9 / 10"
  using C5_samples_within_margin [of "set_wave_type (tone_engine 2) ''sawtooth''" 4]
    sawtooth_buffer
  by simp

text \<open>
  Claim C7. After \<open>set_wave_type\<close> with one of the four valid kinds, the engine's wave
  type is that kind, and the very next \<open>generate_wave\<close> (for a sample rate other than
  zero) returns the buffer of that kind's waveform: the sine, the sign of the sine, the
  sawtooth and the triangle formula respectively.
\<close>

theorem C7_switch_takes_effect_next_buffer:
  assumes w: "w \<in> set [''sine'', ''square'', ''sawtooth'', ''triangle'']"
    and rate: "sample_rate (config eng) \<noteq> 0"
  shows "wave_type (set_wave_type eng w) = w
     \<and> (\<exists>eng'. generate_wave (set_wave_type eng w) num_samples =
           Inr (map (\<lambda>k. np_clip (wave_value w (frequency eng) (t_global eng k) * volume eng)
                           (- (9 / 10)) (9 / 10)) [0..<nat num_samples], eng'))
     \<and> wave_value ''sine'' f t = sin (2 * pi * f * t)
     \<and> wave_value ''square'' f t = sgn (sin (2 * pi * f * t))
     \<and> wave_value ''sawtooth'' f t = 2 * (t * f - of_int \<lfloor>1 / 2 + t * f\<rfloor>)
     \<and> wave_value ''triangle'' f t = 2 * \<bar>2 * (t * f - of_int \<lfloor>t * f + 1 / 2\<rfloor>)\<bar> - 1"
proof -
  have wt: "wave_type (set_wave_type eng w) = w"
    using w by (auto simp: set_wave_type_def)
  have same: "config (set_wave_type eng w) = config eng"
    "frequency (set_wave_type eng w) = frequency eng"
    "volume (set_wave_type eng w) = volume eng"
    "t_global (set_wave_type eng w) = t_global eng"
    by (auto simp: set_wave_type_def t_global_def fun_eq_iff)
  have rate': "sample_rate (config (set_wave_type eng w)) \<noteq> 0"
    using rate same by simp
  show ?thesis
    by (simp add: generate_wave_eq [OF rate'] wt same wave_value_def)
qed

theorem C7_switch_takes_effect_next_buffer_witness:
  "wave_type (set_wave_type (tone_engine 2) ''sawtooth'') = ''sawtooth''
   \<and> generate_wave (set_wave_type (tone_engine 2) ''sawtooth'') 4 =
     Inr ([0, 1 / 3, 2 / 3, 9 / 10],
          (set_wave_type (tone_engine 2) ''sawtooth'')\<lparr>current_phase := 1 / 600\<rparr>)
   \<and> wave_type (tone_engine 2) = ''sine''"
proof -
  have "''sawtooth'' \<in> set [''sine'', ''square'', ''sawtooth'', ''triangle'']"
    and "sample_rate (config (tone_engine 2)) \<noteq> 0"
    by (simp_all add: tone_defs)
  from C7_switch_takes_effect_next_buffer [OF this, of 4] show ?thesis
    by (simp add: sawtooth_buffer) (simp add: tone_defs)
qed

text \<open>
  Claim C9. When \<open>audio_callback\<close> runs with \<open>is_playing\<close> false or with a volume
  below 0.01, for a frame count that is not negative, it returns \<open>frame_count\<close> zero
  samples and the engine state it was given, every field unchanged.
\<close>

theorem C9_silent_callback_keeps_state:
  assumes "\<not> is_playing eng \<or> volume eng < 1 / 100" and "0 \<le> frame_count"
  shows "audio_callback eng frame_count = Inr (replicate (nat frame_count) 0, eng)"
  using assms by (simp add: audio_callback_def)

theorem C9_silent_callback_keeps_state_witness:
  "audio_callback (fresh_engine default_config) 3
     = Inr ([0, 0, 0], fresh_engine default_config)
   \<and> \<not> is_playing (fresh_engine default_config)"
proof -
  have "\<not> is_playing (fresh_engine default_config)
          \<or> volume (fresh_engine default_config) < 1 / 100"
    and "(0::int) \<le> 3"
    by (simp_all add: fresh_engine_def)
  from C9_silent_callback_keeps_state [OF this] show ?thesis
    by (simp add: fresh_engine_def numeral_3_eq_3)
qed

text \<open>
  Claim C10. For a string that is none of the four kinds, \<open>set_wave_type\<close> returns the
  engine unchanged (it has no raising path), and the wave-type endpoint answers with
  \<open>success = False\<close> and leaves the API state, and so the wave type, unchanged.
\<close>

theorem C10_invalid_wave_type_ignored:
  assumes "w \<notin> set [''sine'', ''square'', ''sawtooth'', ''triangle'']"
  shows "set_wave_type eng w = eng \<and> update_wave_type api (Some w) = Inr (False, api)"
  using assms by (simp add: set_wave_type_def update_wave_type_def)

theorem C10_invalid_wave_type_ignored_witness:
  "set_wave_type (fresh_engine default_config) ''noise'' = fresh_engine default_config
   \<and> update_wave_type
        \<lparr>theremin = Some (snd (CorporalTheremin_setup ok_env (new_theremin default_config)))\<rparr>
        (Some ''noise'')
      = Inr (False,
          \<lparr>theremin = Some (snd (CorporalTheremin_setup ok_env (new_theremin default_config)))\<rparr>)"
proof -
  have "''noise'' \<notin> set [''sine'', ''square'', ''sawtooth'', ''triangle'']"
    by simp
  from C10_invalid_wave_type_ignored [OF this] show ?thesis
    by simp
qed

subsection \<open>Phase continuity\<close>

text \<open>
  All four waveforms repeat after a period \<open>1 / f\<close>, and wrapping the phase twice is
  wrapping it once. So while the frequency stays the same (and positive), two
  consecutive buffers are exactly the one long buffer cut in two: they join without a
  discontinuity.
\<close>

lemma sin_shift_periods: "sin (x - 2 * pi * of_int j) = sin x"
  by (simp add: sin_diff)

lemma wave_value_periodic:
  assumes "f \<noteq> 0"
  shows "wave_value wt f (t - of_int j / f) = wave_value wt f t"
proof -
  have prod: "(t - of_int j / f) * f = t * f - of_int j"
    using assms by (simp add: field_simps)
  have ang: "2 * pi * f * (t - of_int j / f) = 2 * pi * f * t - 2 * pi * of_int j"
    using assms by (simp add: field_simps)
  have fl1: "\<lfloor>1 / 2 + (t * f - of_int j)\<rfloor> = \<lfloor>1 / 2 + t * f\<rfloor> - j"
    by (simp add: add_diff_eq)
  have fl2: "\<lfloor>t * f - of_int j + 1 / 2\<rfloor> = \<lfloor>t * f + 1 / 2\<rfloor> - j"
    by (simp add: diff_add_eq)
  show ?thesis
    unfolding wave_value_def prod ang sin_shift_periods fl1 fl2
    by simp
qed

lemma py_fmod_twice:
  assumes "p \<noteq> 0"
  shows "py_fmod (py_fmod a p + c) p = py_fmod (a + c) p"
proof -
  define q where "q = \<lfloor>a / p\<rfloor>"
  have "(a - p * of_int q + c) / p = (a + c) / p - of_int q"
    using assms by (simp add: field_simps)
  then have fl: "\<lfloor>(a - p * of_int q + c) / p\<rfloor> = \<lfloor>(a + c) / p\<rfloor> - q"
    by (simp only: floor_diff_of_int)
  show ?thesis
    unfolding py_fmod_def q_def [symmetric] fl
    by (simp add: algebra_simps)
qed

lemma same_frequency_buffers_join:
  assumes rate: "sample_rate (config eng) \<noteq> 0"
    and f: "0 < frequency eng"
    and n: "0 \<le> n" and m: "0 \<le> m"
  shows "\<exists>buf1 eng1 buf2 eng2.
     generate_wave eng n = Inr (buf1, eng1)
     \<and> generate_wave eng1 m = Inr (buf2, eng2)
     \<and> generate_wave eng (n + m) = Inr (buf1 @ buf2, eng2)"
proof -
  define r where "r = real_of_int (sample_rate (config eng))"
  define p where "p = 1 / frequency eng"
  define j where "j = \<lfloor>(current_phase eng + real_of_int n / r) / p\<rfloor>"
  define eng1 where "eng1 = eng\<lparr>current_phase := py_fmod (current_phase eng + real_of_int n / r) p\<rparr>"
  have p0: "p \<noteq> 0" using f by (simp add: p_def)
  have g1: "generate_wave eng n =
     Inr (map (\<lambda>k. np_clip (wave_value (wave_type eng) (frequency eng) (t_global eng k)
                              * volume eng) (- (9 / 10)) (9 / 10)) [0..<nat n], eng1)"
    using f by (simp add: generate_wave_eq [OF rate] eng1_def r_def p_def)
  have cfg1: "config eng1 = config eng" by (simp add: eng1_def)
  have rate1: "sample_rate (config eng1) \<noteq> 0" using rate by (simp add: cfg1)
  have ph1: "current_phase eng1 = current_phase eng + real_of_int n / r - of_int j / frequency eng"
    by (simp add: eng1_def py_fmod_def j_def p_def)
  have tg: "t_global eng1 k = t_global eng (nat n + k) - of_int j / frequency eng" for k
    using n by (simp add: t_global_def ph1 cfg1 r_def add_divide_distrib)
  have wv: "wave_value (wave_type eng) (frequency eng) (t_global eng1 k)
              = wave_value (wave_type eng) (frequency eng) (t_global eng (nat n + k))" for k
    unfolding tg using f by (intro wave_value_periodic) simp
  have e1: "wave_type eng1 = wave_type eng" "frequency eng1 = frequency eng"
    "volume eng1 = volume eng"
    by (simp_all add: eng1_def)
  have upd: "eng1\<lparr>current_phase := x\<rparr> = eng\<lparr>current_phase := x\<rparr>" for x
    by (simp add: eng1_def)
  have cp: "current_phase eng1 = py_fmod (current_phase eng + real_of_int n / r) p"
    by (simp add: eng1_def)
  have ph2: "py_fmod (current_phase eng1 + real_of_int m / r) p
               = py_fmod (current_phase eng + real_of_int (n + m) / r) p"
    unfolding cp py_fmod_twice [OF p0] by (simp add: add_divide_distrib add.assoc)
  have "generate_wave eng1 m =
     Inr (map (\<lambda>k. np_clip (wave_value (wave_type eng) (frequency eng) (t_global eng1 k)
                              * volume eng) (- (9 / 10)) (9 / 10)) [0..<nat m],
          eng1\<lparr>current_phase := py_fmod (current_phase eng1 + real_of_int m / r) p\<rparr>)"
    using f by (simp add: generate_wave_eq [OF rate1] e1 cfg1 r_def p_def)
  then have g2: "generate_wave eng1 m =
     Inr (map (\<lambda>k. np_clip (wave_value (wave_type eng) (frequency eng) (t_global eng (nat n + k))
                              * volume eng) (- (9 / 10)) (9 / 10)) [0..<nat m],
          eng\<lparr>current_phase := py_fmod (current_phase eng + real_of_int (n + m) / r) p\<rparr>)"
    by (simp only: wv ph2 upd)
  have shifted: "[nat n..<nat n + nat m] = map (\<lambda>k. nat n + k) [0..<nat m]"
    using map_add_upt [of "nat n" "nat m"] by (simp add: add.commute)
  have "[0..<nat n + nat m] = [0..<nat n] @ [nat n..<nat n + nat m]"
    by (rule upt_add_eq_append) simp
  then have split: "[0..<nat (n + m)] = [0..<nat n] @ map (\<lambda>k. nat n + k) [0..<nat m]"
    using n m by (simp only: shifted nat_add_distrib)
  have g3: "generate_wave eng (n + m) =
     Inr (map (\<lambda>k. np_clip (wave_value (wave_type eng) (frequency eng) (t_global eng k)
                              * volume eng) (- (9 / 10)) (9 / 10)) [0..<nat n]
          @ map (\<lambda>k. np_clip (wave_value (wave_type eng) (frequency eng) (t_global eng (nat n + k))
                              * volume eng) (- (9 / 10)) (9 / 10)) [0..<nat m],
          eng\<lparr>current_phase := py_fmod (current_phase eng + real_of_int (n + m) / r) p\<rparr>)"
    using f unfolding generate_wave_eq [OF rate] split
    by (simp add: r_def p_def comp_def)
  show ?thesis using g1 g2 g3 by blast
qed

text \<open>
  Claim C3 on the code. The engine plays a sine of 200 Hz at volume 1/2 and a sample
  rate of 2400 Hz, from phase 0. A first buffer of four samples ends at the sample
  1/2 (the crest of the sine) and leaves the phase 1/600. The processing loop then
  writes the frequency 300 Hz. The next buffer starts at the sample 0: the stored
  phase is a time offset, and at the new frequency it stands for another angle. The
  jump of 1/2 between the two buffers exceeds the amplitude step bound of either
  frequency.
\<close>

theorem C3_frequency_change_breaks_continuity:
  "(case generate_wave (tone_engine (1 / 2)) 4 of
      Inl e \<Rightarrow> False
    | Inr (buf1, eng1) \<Rightarrow>
        (case generate_wave (update_parameters eng1 300 (1 / 2)) 4 of
           Inl e \<Rightarrow> False
         | Inr (buf2, eng2) \<Rightarrow>
             last buf1 = 1 / 2 \<and> current_phase eng1 = 1 / 600 \<and> hd buf2 = 0
             \<and> amplitude_step_bound (1 / 2) 300 2400 < \<bar>hd buf2 - last buf1\<bar>
             \<and> amplitude_step_bound (1 / 2) 200 2400 < \<bar>hd buf2 - last buf1\<bar>))"
proof -
  have "pi * 8 < 4 * 8" using pi_less_4 by simp
  then have "pi / 8 < 1 / 2" "pi / 12 < 1 / 2" using pi_gt_zero by simp_all
  then show ?thesis
    by (simp add: generate_wave_def Let_def tone_defs t_global_def wave_value_def
        np_clip_def py_fmod_def upt_4 amplitude_step_bound_def)
qed

subsection \<open>Set-up failures\<close>

text \<open>
  Whenever the \<^verbatim>\<open>try\<close> body of the set-up raises on a theremin that has no audio
  engine yet, \<open>cleanup\<close> stops at its first statement: \<open>stop\<close> clears \<open>is_running\<close> and
  then raises AttributeError on the missing engine. That error, not the original one,
  leaves the set-up, and no release has run.
\<close>

lemma setup_try_keeps_engine:
  assumes "setup_try env th = (Inl e, th1)"
  shows "audio_engine th1 = audio_engine th"
  using assms
  by (auto simp: setup_try_def Let_def split: sum.splits)

lemma setup_failure_skips_release:
  assumes "audio_engine th = None" and "setup_try env th = (Inl e, th1)"
  shows "CorporalTheremin_setup env th = (Inl AttributeError, th1\<lparr>is_running := False\<rparr>)"
proof -
  have "audio_engine th1 = None"
    using setup_try_keeps_engine [OF assms(2)] assms(1) by simp
  then have "CorporalTheremin_cleanup th1 = (Inl AttributeError, th1\<lparr>is_running := False\<rparr>)"
    by (simp add: CorporalTheremin_cleanup_def CorporalTheremin_stop_def Let_def)
  then show ?thesis
    by (simp add: CorporalTheremin_setup_def assms(2))
qed

text \<open>
  Claim C8 on the code. The camera opens, the hand tracker is built, and opening the
  audio stream raises. The set-up ends with AttributeError instead of the exception of
  the audio library; the camera it opened is still open and the hand tracker it built
  is not closed.
\<close>

theorem C8_failed_setup_releases_nothing:
  "CorporalTheremin_setup audio_fail_env (new_theremin default_config) =
     (Inl AttributeError,
      (new_theremin default_config)
        \<lparr> camera := Some \<lparr>is_opened = True\<rparr>,
          hand_tracker :=
            Some \<lparr>hands_closed = False, left_hand_pos = None, right_hand_pos = None\<rparr> \<rparr>)
   \<and> fst (setup_try audio_fail_env (new_theremin default_config))
       = Inl (ExternalError ''no audio device'')"
  by (simp add: CorporalTheremin_setup_def setup_try_def CorporalTheremin_cleanup_def
      CorporalTheremin_stop_def HandTracker_init_def AudioEngine_init_def audio_fail_env_def
      new_theremin_def Let_def)

end
